theory Spec2Isabelle
  imports Main
begin

section \<open>JavaScript values, objects and strings\<close>

text \<open>
  The values that travel through the DAO: bound parameters, rows and the
  \<open>null\<close> of \<open>getSingleRow\<close>. Numbers are the integers (the DAO does no
  arithmetic on them). An object is the list of its own properties in the order
  \<open>Object.keys\<close> enumerates them.
\<close>

datatype jsval =
    JUndefined
  | JNull
  | JBool bool
  | JNum int
  | JStr string
  | JObj "(string \<times> jsval) list"

type_synonym obj = "(string \<times> jsval) list"

text \<open>\<open>Object.keys(o)\<close>, \<open>Object.values(o)\<close> and \<open>o[key]\<close> (a missing property reads as \<open>undefined\<close>).\<close>

definition keys :: "obj \<Rightarrow> string list" where
  "keys ob = map fst ob"

definition values_of :: "obj \<Rightarrow> jsval list" where
  "values_of ob = map snd ob"

definition get_prop :: "obj \<Rightarrow> string \<Rightarrow> jsval" where
  "get_prop ob key = (case map_of ob key of None \<Rightarrow> JUndefined | Some v \<Rightarrow> v)"

text \<open>The truth value JavaScript gives a value in \<open>if (v)\<close>.\<close>

fun truthy :: "jsval \<Rightarrow> bool" where
  "truthy JUndefined = False"
| "truthy JNull = False"
| "truthy (JBool b) = b"
| "truthy (JNum n) = (n \<noteq> 0)"
| "truthy (JStr s) = (s \<noteq> [])"
| "truthy (JObj _) = True"

text \<open>\<open>xs[i]\<close>: reading past the end of an array gives \<open>undefined\<close>.\<close>

definition index :: "jsval list \<Rightarrow> nat \<Rightarrow> jsval" where
  "index xs i = (if i < length xs then xs ! i else JUndefined)"

text \<open>\<open>Array.prototype.join\<close> on an array of strings.\<close>

fun join :: "string \<Rightarrow> string list \<Rightarrow> string" where
  "join sep [] = []"
| "join sep [x] = x"
| "join sep (x # y # ys) = x @ sep @ join sep (y # ys)"

text \<open>The decimal numeral a template literal prints for a non-negative integer.\<close>

definition digit :: "nat \<Rightarrow> char" where
  "digit d = ''0123456789'' ! d"

fun string_of_nat :: "nat \<Rightarrow> string" where
  "string_of_nat n =
     (if n < 10 then [digit n] else string_of_nat (n div 10) @ [digit (n mod 10)])"

declare string_of_nat.simps [simp del]

definition newline :: string where
  "newline = [CHR 0x0A]"

section \<open>Statement builders\<close>

text \<open>
  The callback of \<open>Object.keys(where).map(...)\<close> in \<open>getAllRows\<close>, \<open>updateRows\<close>
  and \<open>deleteRows\<close>: each key pushes \<open>where[key]\<close> on \<open>params\<close> and yields
  \<open>key = $paramIndex\<close>, incrementing \<open>paramIndex\<close>. The function returns the
  conditions with the final \<open>params\<close> and \<open>paramIndex\<close>.
\<close>

fun whereConditions ::
  "obj \<Rightarrow> string list \<Rightarrow> jsval list \<Rightarrow> nat \<Rightarrow> string list \<times> jsval list \<times> nat" where
  "whereConditions w [] params paramIndex = ([], params, paramIndex)"
| "whereConditions w (key # ks) params paramIndex =
     (case whereConditions w ks (params @ [get_prop w key]) (paramIndex + 1) of
        (conds, params', paramIndex') \<Rightarrow>
          ((key @ '' = $'' @ string_of_nat paramIndex) # conds, params', paramIndex'))"

text \<open>The options of \<open>getAllRows\<close> after destructuring, defaults applied
  (\<open>where = {}\<close>, \<open>select = ['*']\<close>); \<open>orderBy\<close> is a string or absent.\<close>

record options =
  opt_where :: obj
  opt_orderBy :: "string option"
  opt_limit :: jsval
  opt_offset :: jsval
  opt_select :: "string list"

definition getAllRows_query :: "string \<Rightarrow> options \<Rightarrow> string \<times> jsval list" where
  "getAllRows_query tableName options =
     (let query0 = ''SELECT '' @ join '', '' (opt_select options) @ '' FROM '' @ tableName;
          (query1, params1, paramIndex1) =
            (if length (keys (opt_where options)) > 0 then
               (case whereConditions (opt_where options) (keys (opt_where options)) [] 1 of
                  (conds, params, paramIndex) \<Rightarrow>
                    (query0 @ '' WHERE '' @ join '' AND '' conds, params, paramIndex))
             else (query0, [], 1));
          query2 =
            (case opt_orderBy options of
               None \<Rightarrow> query1
             | Some ob \<Rightarrow> if ob \<noteq> [] then query1 @ '' ORDER BY '' @ ob else query1);
          (query3, params3, paramIndex3) =
            (if truthy (opt_limit options) then
               (query2 @ '' LIMIT $'' @ string_of_nat paramIndex1,
                params1 @ [opt_limit options], paramIndex1 + 1)
             else (query2, params1, paramIndex1));
          (query4, params4, paramIndex4) =
            (if truthy (opt_offset options) then
               (query3 @ '' OFFSET $'' @ string_of_nat paramIndex3,
                params3 @ [opt_offset options], paramIndex3 + 1)
             else (query3, params3, paramIndex3))
      in (query4, params4))"

text \<open>\<open>insertRow\<close>: the statement is a template literal that spans several lines.\<close>

definition insertRow_query :: "string \<Rightarrow> obj \<Rightarrow> string list \<Rightarrow> string \<times> jsval list" where
  "insertRow_query tableName data returning =
     (let ks = keys data;
          vals = values_of data;
          placeholders = map (\<lambda>index. ''$'' @ string_of_nat (index + 1)) [0..<length ks];
          query =
            newline @ ''      INSERT INTO '' @ tableName @ '' ('' @ join '', '' ks @ '')'' @
            newline @ ''      VALUES ('' @ join '', '' placeholders @ '')'' @
            newline @ ''      RETURNING '' @ join '', '' returning @
            newline @ ''    ''
      in (query, vals))"

text \<open>What the DAO and its callers throw, what the driver rejects a statement with,
  and the pool giving up on an acquire (\<open>connectionTimeoutMillis\<close> is configured).\<close>

datatype error =
    Error string
  | DatabaseError string
  | PoolTimeout

fun message :: "error \<Rightarrow> string" where
  "message (Error m) = m"
| "message (DatabaseError m) = m"
| "message PoolTimeout = ''timeout exceeded when trying to connect''"

text \<open>\<open>multiInsert\<close>: \<open>keys.map(() => `$${paramIndex++}`)\<close> for one row, then the
  \<open>forEach\<close> over the rows, which threads \<open>placeholders\<close>, \<open>values\<close> and \<open>paramIndex\<close>.\<close>

fun rowPlaceholders :: "string list \<Rightarrow> nat \<Rightarrow> string list \<times> nat" where
  "rowPlaceholders [] paramIndex = ([], paramIndex)"
| "rowPlaceholders (key # ks) paramIndex =
     (case rowPlaceholders ks (paramIndex + 1) of
        (ps, paramIndex') \<Rightarrow> ((''$'' @ string_of_nat paramIndex) # ps, paramIndex'))"

fun multiInsert_forEach ::
  "string list \<Rightarrow> obj list \<Rightarrow> string list \<Rightarrow> jsval list \<Rightarrow> nat
     \<Rightarrow> string list \<times> jsval list \<times> nat" where
  "multiInsert_forEach ks [] placeholders vals paramIndex = (placeholders, vals, paramIndex)"
| "multiInsert_forEach ks (data # rest) placeholders vals paramIndex =
     (case rowPlaceholders ks paramIndex of
        (rp, paramIndex') \<Rightarrow>
          multiInsert_forEach ks rest
            (placeholders @ [''('' @ join '', '' rp @ '')''])
            (vals @ map (get_prop data) ks) paramIndex')"

definition multiInsert_query ::
  "string \<Rightarrow> obj list \<Rightarrow> string list \<Rightarrow> error + string \<times> jsval list" where
  "multiInsert_query tableName dataArray returning =
     (case dataArray of
        [] \<Rightarrow> Inl (Error ''Data array must be a non-empty array'')
      | first # _ \<Rightarrow>
          (let ks = keys first in
           case multiInsert_forEach ks dataArray [] [] 1 of
             (placeholders, vals, paramIndex) \<Rightarrow>
               Inr (newline @ ''      INSERT INTO '' @ tableName @ '' ('' @ join '', '' ks @ '')'' @
                    newline @ ''      VALUES '' @ join '', '' placeholders @
                    newline @ ''      RETURNING '' @ join '', '' returning @
                    newline @ ''    '',
                    vals)))"

text \<open>\<open>updateRows\<close>: the SET clause numbers its placeholders first, the WHERE clause goes on
  from there.\<close>

fun setAssignments :: "string list \<Rightarrow> nat \<Rightarrow> string list \<times> nat" where
  "setAssignments [] paramIndex = ([], paramIndex)"
| "setAssignments (key # ks) paramIndex =
     (case setAssignments ks (paramIndex + 1) of
        (as, paramIndex') \<Rightarrow> ((key @ '' = $'' @ string_of_nat paramIndex) # as, paramIndex'))"

definition updateRows_query ::
  "string \<Rightarrow> obj \<Rightarrow> obj \<Rightarrow> string list \<Rightarrow> string \<times> jsval list" where
  "updateRows_query tableName data wh returning =
     (let dataKeys = keys data;
          dataValues = values_of data;
          (assignments, paramIndex1) = setAssignments dataKeys 1;
          setClause = join '', '' assignments;
          query0 = ''UPDATE '' @ tableName @ '' SET '' @ setClause;
          (query1, params1) =
            (if length (keys wh) > 0 then
               (case whereConditions wh (keys wh) dataValues paramIndex1 of
                  (conds, params, paramIndex) \<Rightarrow>
                    (query0 @ '' WHERE '' @ join '' AND '' conds, params))
             else (query0, dataValues))
      in (query1 @ '' RETURNING '' @ join '', '' returning, params1))"

definition deleteRows_query ::
  "string \<Rightarrow> obj \<Rightarrow> string list \<Rightarrow> error + string \<times> jsval list" where
  "deleteRows_query tableName wh returning =
     (if length (keys wh) = 0 then
        Inl (Error ''DELETE operation requires WHERE conditions for safety'')
      else
        (case whereConditions wh (keys wh) [] 1 of
           (conds, params, paramIndex) \<Rightarrow>
             Inr (''DELETE FROM '' @ tableName @ '' WHERE '' @ join '' AND '' conds @
                  '' RETURNING '' @ join '', '' returning, params)))"

section \<open>The pool, the clients and the database\<close>

text \<open>
  The DAO talks to two things it does not own: the driver's pool and the database
  server behind the clients. Both are parameters of the model.
  \<^item> \<open>pool_pick\<close>: the client \<open>pool.connect()\<close> resolves to, given the clients that
    are checked out; \<open>None\<close> when the acquire fails.
  \<^item> \<open>server\<close>: what the database answers to a statement that arrives on a client
    (the rows, or an error), and the database afterwards.
  Clients are numbered. The world records the clients checked out, every statement
  sent with the client it was sent on, the console, and the database.
\<close>

record 'db env =
  pool_pick :: "nat list \<Rightarrow> nat option"
  server :: "nat \<Rightarrow> string \<Rightarrow> jsval list \<Rightarrow> 'db \<Rightarrow> (error + jsval list) \<times> 'db"

datatype logline =
    LogQueryExecuted string
  | LogQueryError string
  | LogQuery string
  | LogParams "jsval list"
  | LogRolledBack string

record 'db world =
  busy :: "nat list"
  sent :: "(nat \<times> string \<times> jsval list) list"
  console :: "logline list"
  database :: 'db

text \<open>\<open>pool.connect()\<close>, \<open>client.query(text, params)\<close> and \<open>client.release()\<close>.\<close>

definition pool_connect :: "'db env \<Rightarrow> 'db world \<Rightarrow> (error + nat) \<times> 'db world" where
  "pool_connect this w =
     (case pool_pick this (busy w) of
        None \<Rightarrow> (Inl PoolTimeout, w)
      | Some client \<Rightarrow> (Inr client, w\<lparr>busy := client # busy w\<rparr>))"

definition client_query ::
  "'db env \<Rightarrow> nat \<Rightarrow> string \<Rightarrow> jsval list \<Rightarrow> 'db world
     \<Rightarrow> (error + jsval list) \<times> 'db world" where
  "client_query this client text params w =
     (case server this client text params (database w) of
        (r, d) \<Rightarrow> (r, w\<lparr>sent := sent w @ [(client, text, params)], database := d\<rparr>))"

definition client_release :: "nat \<Rightarrow> 'db world \<Rightarrow> 'db world" where
  "client_release client w = w\<lparr>busy := remove1 client (busy w)\<rparr>"

definition console_log :: "logline list \<Rightarrow> 'db world \<Rightarrow> 'db world" where
  "console_log ls w = w\<lparr>console := console w @ ls\<rparr>"

section \<open>The DAO operations\<close>

text \<open>\<open>runQuery\<close>: a client of its own from the pool, the statement on it, the client
  released on both paths. The duration in the log line is left out.\<close>

definition runQuery ::
  "'db env \<Rightarrow> string \<Rightarrow> jsval list \<Rightarrow> 'db world \<Rightarrow> (error + jsval list) \<times> 'db world" where
  "runQuery this text params w =
     (case pool_connect this w of
        (Inl e, w0) \<Rightarrow> (Inl e, w0)
      | (Inr client, w0) \<Rightarrow>
          (case client_query this client text params w0 of
             (Inr result, w1) \<Rightarrow>
               (Inr result,
                client_release client
                  (console_log
                     [LogQueryExecuted
                        (take 100 text @ (if length text > 100 then ''...'' else []))] w1))
           | (Inl error, w1) \<Rightarrow>
               (Inl error,
                client_release client
                  (console_log
                     [LogQueryError (message error), LogQuery text, LogParams params] w1))))"

definition getAllRows ::
  "'db env \<Rightarrow> string \<Rightarrow> options \<Rightarrow> 'db world \<Rightarrow> (error + jsval list) \<times> 'db world" where
  "getAllRows this tableName options w =
     (case getAllRows_query tableName options of
        (query, params) \<Rightarrow> runQuery this query params w)"

definition getSingleRow ::
  "'db env \<Rightarrow> string \<Rightarrow> obj \<Rightarrow> string list \<Rightarrow> 'db world \<Rightarrow> (error + jsval) \<times> 'db world" where
  "getSingleRow this tableName wh select w =
     (case getAllRows this tableName
             \<lparr>opt_where = wh, opt_orderBy = None, opt_limit = JNum 1,
              opt_offset = JUndefined, opt_select = select\<rparr> w of
        (Inl e, w') \<Rightarrow> (Inl e, w')
      | (Inr rows, w') \<Rightarrow> (Inr (if length rows > 0 then index rows 0 else JNull), w'))"

definition insertRow ::
  "'db env \<Rightarrow> string \<Rightarrow> obj \<Rightarrow> string list \<Rightarrow> 'db world \<Rightarrow> (error + jsval) \<times> 'db world" where
  "insertRow this tableName data returning w =
     (case insertRow_query tableName data returning of
        (query, vals) \<Rightarrow>
          (case runQuery this query vals w of
             (Inl e, w') \<Rightarrow> (Inl e, w')
           | (Inr rows, w') \<Rightarrow> (Inr (index rows 0), w')))"

definition multiInsert ::
  "'db env \<Rightarrow> string \<Rightarrow> obj list \<Rightarrow> string list \<Rightarrow> 'db world
     \<Rightarrow> (error + jsval list) \<times> 'db world" where
  "multiInsert this tableName dataArray returning w =
     (case multiInsert_query tableName dataArray returning of
        Inl e \<Rightarrow> (Inl e, w)
      | Inr (query, vals) \<Rightarrow> runQuery this query vals w)"

definition updateRows ::
  "'db env \<Rightarrow> string \<Rightarrow> obj \<Rightarrow> obj \<Rightarrow> string list \<Rightarrow> 'db world
     \<Rightarrow> (error + jsval list) \<times> 'db world" where
  "updateRows this tableName data wh returning w =
     (case updateRows_query tableName data wh returning of
        (query, params) \<Rightarrow> runQuery this query params w)"

definition deleteRows ::
  "'db env \<Rightarrow> string \<Rightarrow> obj \<Rightarrow> string list \<Rightarrow> 'db world
     \<Rightarrow> (error + jsval list) \<times> 'db world" where
  "deleteRows this tableName wh returning w =
     (case deleteRows_query tableName wh returning of
        Inl e \<Rightarrow> (Inl e, w)
      | Inr (query, params) \<Rightarrow> runQuery this query params w)"

text \<open>
  \<open>transaction\<close>: the client is acquired before the \<open>try\<close>, so a failed acquire
  releases nothing. The callback is called with \<open>this\<close>, the DAO itself. An error of
  BEGIN, of the callback or of COMMIT reaches the \<open>catch\<close> block, which sends
  ROLLBACK, then writes its log line, then rethrows; an error of ROLLBACK leaves the
  block at once. \<open>finally\<close> releases the client on every path.
\<close>

definition transaction_catch ::
  "'db env \<Rightarrow> nat \<Rightarrow> error \<Rightarrow> 'db world \<Rightarrow> (error + 'a) \<times> 'db world" where
  "transaction_catch this client error w =
     (case client_query this client ''ROLLBACK'' [] w of
        (Inl error', w1) \<Rightarrow> (Inl error', w1)
      | (Inr _, w1) \<Rightarrow> (Inl error, console_log [LogRolledBack (message error)] w1))"

definition transaction ::
  "'db env \<Rightarrow> ('db env \<Rightarrow> 'db world \<Rightarrow> (error + 'a) \<times> 'db world) \<Rightarrow> 'db world
     \<Rightarrow> (error + 'a) \<times> 'db world" where
  "transaction this operations w =
     (case pool_connect this w of
        (Inl e, w0) \<Rightarrow> (Inl e, w0)
      | (Inr client, w0) \<Rightarrow>
          (case (case client_query this client ''BEGIN'' [] w0 of
                   (Inl error, w1) \<Rightarrow> transaction_catch this client error w1
                 | (Inr _, w1) \<Rightarrow>
                     (case operations this w1 of
                        (Inl error, w2) \<Rightarrow> transaction_catch this client error w2
                      | (Inr result, w2) \<Rightarrow>
                          (case client_query this client ''COMMIT'' [] w2 of
                             (Inl error, w3) \<Rightarrow> transaction_catch this client error w3
                           | (Inr _, w3) \<Rightarrow> (Inr result, w3)))) of
             (r, w') \<Rightarrow> (r, client_release client w')))"

text \<open>\<open>multiUpdate\<close>: the loop over the \<open>{data, where}\<close> items calls \<open>updateRows\<close>, which
  goes through \<open>runQuery\<close>; its \<open>catch\<close> block sends ROLLBACK and rethrows, without a
  log line.\<close>

fun multiUpdate_loop ::
  "'db env \<Rightarrow> string \<Rightarrow> (obj \<times> obj) list \<Rightarrow> string list \<Rightarrow> jsval list \<Rightarrow> 'db world
     \<Rightarrow> (error + jsval list) \<times> 'db world" where
  "multiUpdate_loop this tableName [] returning results w = (Inr results, w)"
| "multiUpdate_loop this tableName ((data, wh) # rest) returning results w =
     (case updateRows this tableName data wh returning w of
        (Inl e, w1) \<Rightarrow> (Inl e, w1)
      | (Inr updatedRows, w1) \<Rightarrow>
          multiUpdate_loop this tableName rest returning (results @ updatedRows) w1)"

definition multiUpdate_catch ::
  "'db env \<Rightarrow> nat \<Rightarrow> error \<Rightarrow> 'db world \<Rightarrow> (error + 'a) \<times> 'db world" where
  "multiUpdate_catch this client error w =
     (case client_query this client ''ROLLBACK'' [] w of
        (Inl error', w1) \<Rightarrow> (Inl error', w1)
      | (Inr _, w1) \<Rightarrow> (Inl error, w1))"

definition multiUpdate ::
  "'db env \<Rightarrow> string \<Rightarrow> (obj \<times> obj) list \<Rightarrow> string list \<Rightarrow> 'db world
     \<Rightarrow> (error + jsval list) \<times> 'db world" where
  "multiUpdate this tableName updateArray returning w =
     (if length updateArray = 0 then
        (Inl (Error ''Update array must be a non-empty array''), w)
      else
        (case pool_connect this w of
           (Inl e, w0) \<Rightarrow> (Inl e, w0)
         | (Inr client, w0) \<Rightarrow>
             (case (case client_query this client ''BEGIN'' [] w0 of
                      (Inl error, w1) \<Rightarrow> multiUpdate_catch this client error w1
                    | (Inr _, w1) \<Rightarrow>
                        (case multiUpdate_loop this tableName updateArray returning [] w1 of
                           (Inl error, w2) \<Rightarrow> multiUpdate_catch this client error w2
                         | (Inr results, w2) \<Rightarrow>
                             (case client_query this client ''COMMIT'' [] w2 of
                                (Inl error, w3) \<Rightarrow> multiUpdate_catch this client error w3
                              | (Inr _, w3) \<Rightarrow> (Inr results, w3)))) of
                (r, w') \<Rightarrow> (r, client_release client w'))))"

section \<open>Closed forms of the generated clauses\<close>

text \<open>The text the specification gives for a list of equality conditions: the keys in
  order, the \<open>i\<close>-th one compared with placeholder number \<open>start + i\<close>.\<close>

definition condition :: "string \<Rightarrow> nat \<Rightarrow> string" where
  "condition key n = key @ '' = $'' @ string_of_nat n"

definition conditions :: "string list \<Rightarrow> nat \<Rightarrow> string list" where
  "conditions ks start = map2 condition ks [start..<start + length ks]"

definition where_clause :: "obj \<Rightarrow> nat \<Rightarrow> string" where
  "where_clause wh start =
     (if wh = [] then [] else '' WHERE '' @ join '' AND '' (conditions (keys wh) start))"

definition where_values :: "obj \<Rightarrow> jsval list" where
  "where_values wh = map (get_prop wh) (keys wh)"

definition orderBy_clause :: "string option \<Rightarrow> string" where
  "orderBy_clause ob =
     (case ob of None \<Rightarrow> [] | Some s \<Rightarrow> if s = [] then [] else '' ORDER BY '' @ s)"

text \<open>The statement of \<open>getAllRows\<close> up to and including ORDER BY, then the LIMIT and
  OFFSET clauses with the values bound for them; \<open>n\<close> is the number of placeholders
  already used.\<close>

definition select_head :: "string \<Rightarrow> options \<Rightarrow> string" where
  "select_head t opts =
     ''SELECT '' @ join '', '' (opt_select opts) @ '' FROM '' @ t @
     where_clause (opt_where opts) 1 @ orderBy_clause (opt_orderBy opts)"

definition paging_clauses :: "options \<Rightarrow> nat \<Rightarrow> string" where
  "paging_clauses opts n =
     (if truthy (opt_limit opts) then '' LIMIT $'' @ string_of_nat (1 + n) else []) @
     (if truthy (opt_offset opts)
      then '' OFFSET $'' @ string_of_nat (1 + n + (if truthy (opt_limit opts) then 1 else 0))
      else [])"

definition paging_values :: "options \<Rightarrow> jsval list" where
  "paging_values opts =
     (if truthy (opt_limit opts) then [opt_limit opts] else []) @
     (if truthy (opt_offset opts) then [opt_offset opts] else [])"

section \<open>Reading a statement as SQL\<close>

text \<open>The words of a statement: the maximal runs of characters between blanks and line
  breaks. Two statement texts with the same words differ in layout only.\<close>

definition is_space :: "char \<Rightarrow> bool" where
  "is_space c = (c = CHR '' '' \<or> c = CHR 0x0A)"

fun split_words :: "string \<Rightarrow> string \<Rightarrow> string list" where
  "split_words cur [] = (if cur = [] then [] else [cur])"
| "split_words cur (c # cs) =
     (if is_space c then (if cur = [] then split_words [] cs else cur # split_words [] cs)
      else split_words (cur @ [c]) cs)"

definition sql_words :: "string \<Rightarrow> string list" where
  "sql_words s = split_words [] s"

section \<open>A pool and a database to run the DAO against\<close>

text \<open>
  A pool of \<open>n\<close> clients: it hands out the lowest-numbered client that is not
  checked out, and the acquire fails when all are.

  A database with one table and the transaction commands. BEGIN opens a transaction
  on the client it arrives on, COMMIT makes the rows written in that transaction
  visible, ROLLBACK discards them. Every other statement is a write of one row, the
  list of its parameters; it is rejected when a parameter is \<open>null\<close>, and it is
  visible at once when its client has no transaction open. No rows are reported back.
\<close>

definition pool_of :: "nat \<Rightarrow> nat list \<Rightarrow> nat option" where
  "pool_of n checked_out = find (\<lambda>c. c \<notin> set checked_out) [0..<n]"

record store =
  committed :: "jsval list list"
  pending :: "(nat \<times> jsval list list) list"

definition store_server ::
  "nat \<Rightarrow> string \<Rightarrow> jsval list \<Rightarrow> store \<Rightarrow> (error + jsval list) \<times> store" where
  "store_server client text params db =
     (if text = ''BEGIN'' then
        (Inr [], db\<lparr>pending := (client, []) # pending db\<rparr>)
      else if text = ''COMMIT'' then
        (case map_of (pending db) client of
           None \<Rightarrow> (Inr [], db)
         | Some rows \<Rightarrow>
             (Inr [], \<lparr>committed = committed db @ rows,
                       pending = filter (\<lambda>p. fst p \<noteq> client) (pending db)\<rparr>))
      else if text = ''ROLLBACK'' then
        (Inr [], db\<lparr>pending := filter (\<lambda>p. fst p \<noteq> client) (pending db)\<rparr>)
      else if JNull \<in> set params then
        (Inl (DatabaseError ''null value violates not-null constraint''), db)
      else
        (case map_of (pending db) client of
           None \<Rightarrow> (Inr [], db\<lparr>committed := committed db @ [params]\<rparr>)
         | Some rows \<Rightarrow>
             (Inr [], db\<lparr>pending := (client, rows @ [params]) #
                                    filter (\<lambda>p. fst p \<noteq> client) (pending db)\<rparr>)))"

definition store_env :: "store env" where
  "store_env = \<lparr>pool_pick = pool_of 2, server = store_server\<rparr>"

definition store_start :: "store world" where
  "store_start = \<lparr>busy = [], sent = [], console = [],
                  database = \<lparr>committed = [], pending = []\<rparr>\<rparr>"

text \<open>A database connection on which ROLLBACK fails and everything else succeeds.\<close>

definition broken_rollback_env :: "unit env" where
  "broken_rollback_env =
     \<lparr>pool_pick = pool_of 2,
      server = (\<lambda>client text params db.
        if text = ''ROLLBACK'' then (Inl (DatabaseError ''Connection terminated''), db)
        else (Inr [], db))\<rparr>"

definition broken_rollback_start :: "unit world" where
  "broken_rollback_start = \<lparr>busy = [], sent = [], console = [], database = ()\<rparr>"

text \<open>Two callbacks for \<open>transaction\<close>: one inserts a row through the handle it is
  given; the other does the same and then throws.\<close>

definition insert_one :: "'db env \<Rightarrow> 'db world \<Rightarrow> (error + jsval) \<times> 'db world" where
  "insert_one dao w = insertRow dao ''t'' [(''a'', JNum 1)] [''*''] w"

definition insert_then_throw :: "'db env \<Rightarrow> 'db world \<Rightarrow> (error + jsval) \<times> 'db world" where
  "insert_then_throw dao w =
     (case insertRow dao ''t'' [(''a'', JNum 1)] [''*''] w of
        (Inl e, w') \<Rightarrow> (Inl e, w')
      | (Inr row, w') \<Rightarrow> (Inl (Error ''boom''), w'))"

definition throw_boom :: "'db env \<Rightarrow> 'db world \<Rightarrow> (error + jsval) \<times> 'db world" where
  "throw_boom dao w = (Inl (Error ''boom''), w)"

section \<open>Statements as pieces\<close>

text \<open>
  A statement seen as the builder emits it: literal text, and placeholders, each with
  its number and the value it stands for. \<open>render\<close> gives the text of the statement,
  \<open>emitted\<close> the placeholders in the order of the text.
\<close>

datatype piece = Text string | Placeholder nat jsval

fun render_piece :: "piece \<Rightarrow> string" where
  "render_piece (Text s) = s"
| "render_piece (Placeholder n v) = ''$'' @ string_of_nat n"

definition render :: "piece list \<Rightarrow> string" where
  "render ps = concat (map render_piece ps)"

fun emitted :: "piece list \<Rightarrow> (nat \<times> jsval) list" where
  "emitted [] = []"
| "emitted (Text s # ps) = emitted ps"
| "emitted (Placeholder n v # ps) = (n, v) # emitted ps"

fun join_pieces :: "string \<Rightarrow> piece list list \<Rightarrow> piece list" where
  "join_pieces sep [] = []"
| "join_pieces sep [x] = x"
| "join_pieces sep (x # y # ys) = x @ [Text sep] @ join_pieces sep (y # ys)"

text \<open>\<open>key = $n\<close> for each key with its value, numbered from \<open>start\<close>; the WHERE clause
  over \<open>where[key]\<close> for the keys of \<open>where\<close>.\<close>

definition assign_pieces :: "(string \<times> jsval) list \<Rightarrow> nat \<Rightarrow> piece list list" where
  "assign_pieces kvs start =
     map2 (\<lambda>kv n. [Text (fst kv @ '' = ''), Placeholder n (snd kv)])
       kvs [start..<start + length kvs]"

definition where_pieces :: "obj \<Rightarrow> nat \<Rightarrow> piece list" where
  "where_pieces wh start =
     (if wh = [] then []
      else Text '' WHERE '' #
           join_pieces '' AND '' (assign_pieces (zip (keys wh) (where_values wh)) start))"

definition getAllRows_pieces :: "string \<Rightarrow> options \<Rightarrow> piece list" where
  "getAllRows_pieces t opts =
     Text (''SELECT '' @ join '', '' (opt_select opts) @ '' FROM '' @ t) #
     where_pieces (opt_where opts) 1 @
     [Text (orderBy_clause (opt_orderBy opts))] @
     (if truthy (opt_limit opts)
      then [Text '' LIMIT '', Placeholder (1 + length (opt_where opts)) (opt_limit opts)]
      else []) @
     (if truthy (opt_offset opts)
      then [Text '' OFFSET '',
            Placeholder (1 + length (opt_where opts) + (if truthy (opt_limit opts) then 1 else 0))
              (opt_offset opts)]
      else [])"

definition updateRows_pieces :: "string \<Rightarrow> obj \<Rightarrow> obj \<Rightarrow> string list \<Rightarrow> piece list" where
  "updateRows_pieces t data wh returning =
     Text (''UPDATE '' @ t @ '' SET '') #
     join_pieces '', '' (assign_pieces (zip (keys data) (values_of data)) 1) @
     where_pieces wh (1 + length data) @
     [Text ('' RETURNING '' @ join '', '' returning)]"

definition deleteRows_pieces :: "string \<Rightarrow> obj \<Rightarrow> string list \<Rightarrow> piece list" where
  "deleteRows_pieces t wh returning =
     Text (''DELETE FROM '' @ t) # where_pieces wh 1 @
     [Text ('' RETURNING '' @ join '', '' returning)]"

text \<open>One parenthesised row of \<open>multiInsert\<close>: a placeholder per key of the first row,
  standing for \<open>data[key]\<close>; the rows one after the other.\<close>

definition row_pieces :: "string list \<Rightarrow> obj \<Rightarrow> nat \<Rightarrow> piece list" where
  "row_pieces ks data start =
     Text ''('' #
     join_pieces '', ''
       (map2 (\<lambda>key n. [Placeholder n (get_prop data key)]) ks [start..<start + length ks]) @
     [Text '')'']"

fun rows_pieces :: "string list \<Rightarrow> obj list \<Rightarrow> nat \<Rightarrow> piece list list" where
  "rows_pieces ks [] start = []"
| "rows_pieces ks (data # rest) start =
     row_pieces ks data start # rows_pieces ks rest (start + length ks)"

definition multiInsert_pieces :: "string \<Rightarrow> obj list \<Rightarrow> string list \<Rightarrow> piece list" where
  "multiInsert_pieces t dataArray returning =
     (case dataArray of
        [] \<Rightarrow> []
      | first # _ \<Rightarrow>
          Text (newline @ ''      INSERT INTO '' @ t @ '' ('' @ join '', '' (keys first) @ '')'' @
                newline @ ''      VALUES '') #
          join_pieces '', '' (rows_pieces (keys first) dataArray 1) @
          [Text (newline @ ''      RETURNING '' @ join '', '' returning @ newline @ ''    '')])"

section \<open>Properties of the builders\<close>

lemma upt_add_Suc: "[i..<i + Suc n] = i # [Suc i..<Suc i + n]"
proof -
  have "i < i + Suc n" by simp
  then have "[i..<i + Suc n] = i # [Suc i..<i + Suc n]" by (rule upt_conv_Cons)
  then show ?thesis by (simp del: upt_Suc)
qed

lemma conditions_Nil: "conditions [] i = []"
  by (simp add: conditions_def)

lemma conditions_Cons: "conditions (k # ks) i = condition k i # conditions ks (Suc i)"
  unfolding conditions_def length_Cons upt_add_Suc by simp

lemma length_conditions: "length (conditions ks i) = length ks"
  by (simp add: conditions_def)

lemma whereConditions_closed:
  "whereConditions w ks params i = (conditions ks i, params @ map (get_prop w) ks, i + length ks)"
  by (induction ks arbitrary: params i) (simp_all add: conditions_Nil conditions_Cons condition_def)

lemma setAssignments_closed:
  "setAssignments ks i = (conditions ks i, i + length ks)"
  by (induction ks arbitrary: i) (simp_all add: conditions_Nil conditions_Cons condition_def)

text \<open>
  Claim C5. For every table name (and every \<open>returning\<close> list, in every state of the
  pool and the database), \<open>deleteRows\<close> with an empty \<open>where\<close> mapping fails with the
  error the DAO raises for an unsafe delete, and the world is the one it started in:
  no client was acquired and no statement was sent.
\<close>

theorem deleteRows_empty_where:
  "deleteRows this tableName [] returning w =
     (Inl (Error ''DELETE operation requires WHERE conditions for safety''), w)"
  by (simp add: deleteRows_def deleteRows_query_def keys_def)

lemma getAllRows_query_closed:
  "getAllRows_query t opts =
     (select_head t opts @ paging_clauses opts (length (opt_where opts)),
      where_values (opt_where opts) @ paging_values opts)"
  by (cases "opt_orderBy opts")
     (simp_all add: getAllRows_query_def select_head_def where_clause_def orderBy_clause_def
        where_values_def paging_clauses_def paging_values_def whereConditions_closed keys_def)

text \<open>
  Claim C10. With \<open>limit\<close> equal to 0 the statement of \<open>getAllRows\<close> has no LIMIT
  clause and binds no value for it: the statement ends with the OFFSET clause, if there
  is one, numbered right after the WHERE placeholders. With \<open>offset\<close> equal to 0 it has
  no OFFSET clause and binds no value for it. In both cases the call does exactly what
  the call with the option left undefined does, so a limit of 0 selects like no limit.
\<close>

theorem getAllRows_limit_offset_zero:
  "getAllRows_query t (opts\<lparr>opt_limit := JNum 0\<rparr>) =
     (select_head t opts @
      (if truthy (opt_offset opts)
       then '' OFFSET $'' @ string_of_nat (1 + length (opt_where opts)) else []),
      where_values (opt_where opts) @
      (if truthy (opt_offset opts) then [opt_offset opts] else []))
   \<and> getAllRows_query t (opts\<lparr>opt_offset := JNum 0\<rparr>) =
     (select_head t opts @
      (if truthy (opt_limit opts)
       then '' LIMIT $'' @ string_of_nat (1 + length (opt_where opts)) else []),
      where_values (opt_where opts) @
      (if truthy (opt_limit opts) then [opt_limit opts] else []))
   \<and> getAllRows this t (opts\<lparr>opt_limit := JNum 0\<rparr>) w =
       getAllRows this t (opts\<lparr>opt_limit := JUndefined\<rparr>) w
   \<and> getAllRows this t (opts\<lparr>opt_offset := JNum 0\<rparr>) w =
       getAllRows this t (opts\<lparr>opt_offset := JUndefined\<rparr>) w"
  by (simp add: getAllRows_query_closed getAllRows_def select_head_def paging_clauses_def
        paging_values_def)

text \<open>
  Claim C7. \<open>getSingleRow\<close> is \<open>getAllRows\<close> with the same \<open>where\<close> and column list and
  \<open>limit\<close> 1 (no ORDER BY, no OFFSET): an error is passed on, an empty row list gives
  \<open>null\<close>, and otherwise the result is the first row. The statement it sends ends with
  the LIMIT placeholder, bound to 1. The \<open>null\<close> of the empty case is neither
  \<open>undefined\<close> nor an object.
\<close>

theorem getSingleRow_limit_one:
  "getSingleRow this t wh sel w =
     (case getAllRows this t
             \<lparr>opt_where = wh, opt_orderBy = None, opt_limit = JNum 1,
              opt_offset = JUndefined, opt_select = sel\<rparr> w of
        (Inl e, w') \<Rightarrow> (Inl e, w')
      | (Inr [], w') \<Rightarrow> (Inr JNull, w')
      | (Inr (row # rest), w') \<Rightarrow> (Inr row, w'))
   \<and> getAllRows_query t
         \<lparr>opt_where = wh, opt_orderBy = None, opt_limit = JNum 1,
          opt_offset = JUndefined, opt_select = sel\<rparr> =
       (''SELECT '' @ join '', '' sel @ '' FROM '' @ t @ where_clause wh 1 @
        '' LIMIT $'' @ string_of_nat (1 + length wh),
        where_values wh @ [JNum 1])
   \<and> JNull \<noteq> JUndefined \<and> (\<forall>fields. JNull \<noteq> JObj fields)"
  by (simp add: getSingleRow_def index_def getAllRows_query_closed select_head_def
        orderBy_clause_def paging_clauses_def paging_values_def
        split: prod.splits sum.splits list.splits)

lemma conditions_unfold:
  "conditions ks i = map2 (\<lambda>key n. key @ '' = $'' @ string_of_nat n) ks [i..<i + length ks]"
  unfolding conditions_def condition_def ..

text \<open>
  Claim C4. The statement of \<open>getAllRows\<close> is the SELECT head, then, for a non-empty
  \<open>where\<close> mapping, \<open>WHERE\<close> and one condition \<open>key = $n\<close> per key of the mapping, in
  the order of \<open>Object.keys\<close>, joined by \<open>AND\<close>, with \<open>n\<close> running through 1, 2, ... ;
  for an empty \<open>where\<close> mapping nothing stands between the head and the remaining
  clauses. The bound parameters start with \<open>where[key]\<close> for each key in the same order.
\<close>

theorem getAllRows_where_conditions:
  "getAllRows_query t opts =
     (''SELECT '' @ join '', '' (opt_select opts) @ '' FROM '' @ t @
      (if opt_where opts = [] then []
       else '' WHERE '' @
            join '' AND ''
              (map2 (\<lambda>key n. key @ '' = $'' @ string_of_nat n)
                 (keys (opt_where opts)) [1..<1 + length (keys (opt_where opts))])) @
      orderBy_clause (opt_orderBy opts) @ paging_clauses opts (length (opt_where opts)),
      map (get_prop (opt_where opts)) (keys (opt_where opts)) @ paging_values opts)
   \<and> length (map2 (\<lambda>key n. key @ '' = $'' @ string_of_nat n)
                 (keys (opt_where opts)) [1..<1 + length (keys (opt_where opts))]) =
       length (keys (opt_where opts))"
proof -
  have len: "length (keys (opt_where opts)) = length (opt_where opts)"
    by (simp add: keys_def)
  have "where_clause (opt_where opts) 1 =
      (if opt_where opts = [] then []
       else '' WHERE '' @
            join '' AND ''
              (map2 (\<lambda>key n. key @ '' = $'' @ string_of_nat n)
                 (keys (opt_where opts)) [1..<1 + length (keys (opt_where opts))]))"
    unfolding where_clause_def conditions_unfold ..
  then show ?thesis
    unfolding getAllRows_query_closed select_head_def where_values_def
    by (simp del: upt_Suc add: len)
qed

section \<open>Properties of the operations\<close>

lemma client_query_console:
  "client_query this c text params w = (r, w') \<Longrightarrow> console w' = console w"
  by (auto simp: client_query_def split: prod.splits)

lemma runQuery_sent:
  "pool_pick this (busy w) = Some c \<Longrightarrow>
     sent (snd (runQuery this text params w)) = sent w @ [(c, text, params)]"
  by (simp add: runQuery_def pool_connect_def client_query_def client_release_def console_log_def
        split: prod.splits sum.splits)

text \<open>While a client is checked out, a pool that never hands out a checked-out client
  gives \<open>runQuery\<close> another one, and the statement goes out on that one.\<close>

lemma runQuery_inside_scope:
  assumes "client \<in> set (busy w)"
    and "pool_pick this (busy w) = Some c"
    and "c \<notin> set (busy w)"
  shows "sent (snd (runQuery this text params w)) = sent w @ [(c, text, params)] \<and> c \<noteq> client"
  using assms runQuery_sent [OF assms(2)] by auto

lemma insertRow_placeholders:
  "map (\<lambda>index. ''$'' @ string_of_nat (index + 1)) [0..<n] =
   map (\<lambda>k. ''$'' @ string_of_nat k) [1..<1 + n]"
proof -
  have "map (\<lambda>index. ''$'' @ string_of_nat (index + 1)) [0..<n] =
        map (\<lambda>k. ''$'' @ string_of_nat k) (map (\<lambda>i. i + 1) [0..<n])"
    by (simp add: comp_def)
  also have "map (\<lambda>i. i + 1) [0..<n] = [1..<n + 1]"
    by (rule map_add_upt)
  finally show ?thesis by (simp del: upt_Suc)
qed

text \<open>
  Claim C8. \<open>insertRow\<close> called with table \<open>table\<close>, data \<open>{a: 1, b: 2}\<close> and
  \<open>returning = ['*']\<close> builds the statement
  \<open>INSERT INTO table (a, b) VALUES ($1, $2) RETURNING *\<close>, laid out over several
  lines by the template literal (first conjunct: the text as built; second: it has the
  words of the one-line statement), and binds the values \<open>[1, 2]\<close>. In general the
  column list is \<open>Object.keys(data)\<close> in order, the placeholders are \<open>$1\<close> to \<open>$n\<close>,
  and the bound values are \<open>Object.values(data)\<close> in the same order.
\<close>

theorem insertRow_statement:
  "insertRow_query ''table'' [(''a'', JNum 1), (''b'', JNum 2)] [''*''] =
     (newline @ ''      INSERT INTO table (a, b)'' @
      newline @ ''      VALUES ($1, $2)'' @
      newline @ ''      RETURNING *'' @
      newline @ ''    '',
      [JNum 1, JNum 2])
   \<and> sql_words (fst (insertRow_query ''table'' [(''a'', JNum 1), (''b'', JNum 2)] [''*''])) =
       sql_words ''INSERT INTO table (a, b) VALUES ($1, $2) RETURNING *''
   \<and> insertRow_query t data returning =
     (newline @ ''      INSERT INTO '' @ t @ '' ('' @ join '', '' (keys data) @ '')'' @
      newline @ ''      VALUES ('' @
        join '', '' (map (\<lambda>k. ''$'' @ string_of_nat k) [1..<1 + length data]) @ '')'' @
      newline @ ''      RETURNING '' @ join '', '' returning @
      newline @ ''    '',
      values_of data)"
proof -
  have "insertRow_query ''table'' [(''a'', JNum 1), (''b'', JNum 2)] [''*''] =
     (newline @ ''      INSERT INTO table (a, b)'' @
      newline @ ''      VALUES ($1, $2)'' @
      newline @ ''      RETURNING *'' @
      newline @ ''    '',
      [JNum 1, JNum 2])"
    by code_simp
  moreover have
    "sql_words (fst (insertRow_query ''table'' [(''a'', JNum 1), (''b'', JNum 2)] [''*''])) =
       sql_words ''INSERT INTO table (a, b) VALUES ($1, $2) RETURNING *''"
    by code_simp
  moreover have "insertRow_query t data returning =
     (newline @ ''      INSERT INTO '' @ t @ '' ('' @ join '', '' (keys data) @ '')'' @
      newline @ ''      VALUES ('' @
        join '', '' (map (\<lambda>k. ''$'' @ string_of_nat k) [1..<1 + length data]) @ '')'' @
      newline @ ''      RETURNING '' @ join '', '' returning @
      newline @ ''    '',
      values_of data)"
    unfolding insertRow_query_def Let_def insertRow_placeholders
    by (simp add: keys_def del: upt_Suc)
  ultimately show ?thesis by blast
qed

text \<open>
  Claim C6, as the code has it. An empty array makes \<open>multiInsert\<close> fail with the DAO's
  own error before anything is sent: the world is unchanged. An empty data mapping is
  not checked: \<open>insertRow\<close> builds an INSERT with an empty column list and an empty
  VALUES list, \<open>updateRows\<close> an UPDATE with an empty SET list, and both hand the
  statement to \<open>runQuery\<close>, which sends it on the client the pool gives it.
\<close>

theorem empty_input_validation:
  "multiInsert this t [] returning w =
     (Inl (Error ''Data array must be a non-empty array''), w)
   \<and> insertRow this t [] returning w =
     (case runQuery this
             (newline @ ''      INSERT INTO '' @ t @ '' ()'' @
              newline @ ''      VALUES ()'' @
              newline @ ''      RETURNING '' @ join '', '' returning @
              newline @ ''    '') [] w of
        (Inl e, w') \<Rightarrow> (Inl e, w')
      | (Inr rows, w') \<Rightarrow> (Inr (index rows 0), w'))
   \<and> updateRows this t [] wh returning w =
     runQuery this
       (''UPDATE '' @ t @ '' SET '' @ where_clause wh 1 @ '' RETURNING '' @ join '', '' returning)
       (where_values wh) w
   \<and> (pool_pick this (busy w) = Some c \<longrightarrow>
        sent (snd (runQuery this text params w)) = sent w @ [(c, text, params)])"
  by (simp add: multiInsert_def multiInsert_query_def insertRow_def insertRow_query_def
        updateRows_def updateRows_query_def keys_def values_of_def where_clause_def
        where_values_def whereConditions_closed runQuery_sent)

text \<open>The theorem at work: the empty array is refused in the starting world of the
  two-client pool, where the pool hands out client 0 and \<open>runQuery\<close> sends on it.\<close>

theorem empty_input_validation_witness:
  "multiInsert store_env ''t'' [] [''*''] store_start =
     (Inl (Error ''Data array must be a non-empty array''), store_start)
   \<and> pool_pick store_env (busy store_start) = Some 0
   \<and> sent (snd (runQuery store_env ''UPDATE t SET  RETURNING *'' [] store_start)) =
       sent store_start @ [(0, ''UPDATE t SET  RETURNING *'', [])]"
proof -
  have p: "pool_pick store_env (busy store_start) = Some 0"
    by code_simp
  show ?thesis
    using empty_input_validation [of store_env "''t''" "[''*'']" store_start "[]" 0
        "''UPDATE t SET  RETURNING *''" "[]"] p
    by simp
qed

text \<open>Against the claim as stated: with an empty data mapping \<open>insertRow\<close> and
  \<open>updateRows\<close> raise nothing of their own; each sends one statement.\<close>

theorem empty_data_is_sent:
  "sent (snd (insertRow store_env ''t'' [] [''*''] store_start)) =
     [(0, newline @ ''      INSERT INTO t ()'' @ newline @ ''      VALUES ()'' @ newline @
          ''      RETURNING *'' @ newline @ ''    '', [])]
   \<and> sent (snd (updateRows store_env ''t'' [] [] [''*''] store_start)) =
     [(0, ''UPDATE t SET  RETURNING *'', [])]"
  by code_simp

text \<open>
  Claim C3, as the code has it. When the callback of \<open>transaction\<close> fails and the
  ROLLBACK that follows fails too, the error of the ROLLBACK is the one raised to the
  caller, in place of the callback's error; the \<open>catch\<close> block is left before its log
  line, so the console is as the callback left it; the client is released.
\<close>

theorem transaction_rollback_failure:
  assumes "pool_connect this w = (Inr client, w0)"
    and "client_query this client ''BEGIN'' [] w0 = (Inr r, w1)"
    and "operations this w1 = (Inl error, w2)"
    and "client_query this client ''ROLLBACK'' [] w2 = (Inl error', w3)"
  shows "transaction this operations w = (Inl error', client_release client w3)
         \<and> console (client_release client w3) = console w2"
  using assms client_query_console [OF assms(4)]
  by (simp add: transaction_def transaction_catch_def client_release_def)

text \<open>The theorem at work, on the connection whose ROLLBACK fails, with a callback that
  throws at once.\<close>

theorem transaction_rollback_failure_witness:
  "pool_connect broken_rollback_env broken_rollback_start =
     (Inr 0, broken_rollback_start\<lparr>busy := [0]\<rparr>)
   \<and> client_query broken_rollback_env 0 ''BEGIN'' [] (broken_rollback_start\<lparr>busy := [0]\<rparr>) =
     (Inr [], broken_rollback_start\<lparr>busy := [0], sent := [(0, ''BEGIN'', [])]\<rparr>)
   \<and> throw_boom broken_rollback_env
        (broken_rollback_start\<lparr>busy := [0], sent := [(0, ''BEGIN'', [])]\<rparr>) =
     (Inl (Error ''boom''), broken_rollback_start\<lparr>busy := [0], sent := [(0, ''BEGIN'', [])]\<rparr>)
   \<and> client_query broken_rollback_env 0 ''ROLLBACK'' []
        (broken_rollback_start\<lparr>busy := [0], sent := [(0, ''BEGIN'', [])]\<rparr>) =
     (Inl (DatabaseError ''Connection terminated''),
      broken_rollback_start\<lparr>busy := [0], sent := [(0, ''BEGIN'', []), (0, ''ROLLBACK'', [])]\<rparr>)
   \<and> transaction broken_rollback_env throw_boom broken_rollback_start =
     (Inl (DatabaseError ''Connection terminated''),
      client_release 0
        (broken_rollback_start\<lparr>busy := [0], sent := [(0, ''BEGIN'', []), (0, ''ROLLBACK'', [])]\<rparr>))
   \<and> console (client_release 0
        (broken_rollback_start\<lparr>busy := [0], sent := [(0, ''BEGIN'', []), (0, ''ROLLBACK'', [])]\<rparr>)) = []"
proof -
  have 1: "pool_connect broken_rollback_env broken_rollback_start =
     (Inr 0, broken_rollback_start\<lparr>busy := [0]\<rparr>)"
    by code_simp
  have 2: "client_query broken_rollback_env 0 ''BEGIN'' [] (broken_rollback_start\<lparr>busy := [0]\<rparr>) =
     (Inr [], broken_rollback_start\<lparr>busy := [0], sent := [(0, ''BEGIN'', [])]\<rparr>)"
    by code_simp
  have 3: "throw_boom broken_rollback_env
        (broken_rollback_start\<lparr>busy := [0], sent := [(0, ''BEGIN'', [])]\<rparr>) =
     (Inl (Error ''boom''), broken_rollback_start\<lparr>busy := [0], sent := [(0, ''BEGIN'', [])]\<rparr>)"
    by (simp add: throw_boom_def)
  have 4: "client_query broken_rollback_env 0 ''ROLLBACK'' []
        (broken_rollback_start\<lparr>busy := [0], sent := [(0, ''BEGIN'', [])]\<rparr>) =
     (Inl (DatabaseError ''Connection terminated''),
      broken_rollback_start\<lparr>busy := [0], sent := [(0, ''BEGIN'', []), (0, ''ROLLBACK'', [])]\<rparr>)"
    by code_simp
  show ?thesis
    using transaction_rollback_failure [where operations = throw_boom, OF 1 2 3 4] 1 2 3 4
    by (simp add: broken_rollback_start_def)
qed

text \<open>Against the claim as stated: the callback throws \<open>boom\<close>, ROLLBACK fails, and the
  caller sees the error of the ROLLBACK; nothing was written to the console.\<close>

theorem rollback_failure_masks_error:
  "transaction broken_rollback_env throw_boom broken_rollback_start =
     (Inl (DatabaseError ''Connection terminated''),
      \<lparr>busy = [], sent = [(0, ''BEGIN'', []), (0, ''ROLLBACK'', [])],
       console = [], database = ()\<rparr>)"
  by code_simp

text \<open>
  Claim C1, the code at a failing input. A transaction whose callback inserts one row
  through the handle it receives, on a pool of two clients: BEGIN and COMMIT go out on
  client 0, the client of the scope; the INSERT goes out on client 1, which \<open>runQuery\<close>
  acquired from the pool for it.
\<close>

theorem transaction_callback_other_client:
  "sent (snd (transaction store_env insert_one store_start)) =
     [(0, ''BEGIN'', []),
      (1, newline @ ''      INSERT INTO t (a)'' @ newline @ ''      VALUES ($1)'' @ newline @
          ''      RETURNING *'' @ newline @ ''    '', [JNum 1]),
      (0, ''COMMIT'', [])]"
  by code_simp

text \<open>
  Claim C2, the code at two failing inputs. A callback that throws \<open>boom\<close> after a
  successful insert: the caller sees \<open>boom\<close>, and the inserted row is committed all the
  same. A batch of two updates whose second one the database rejects: the caller sees
  the database's error, and the first update is committed all the same. In both, the
  writes went out on a client with no transaction open, and ROLLBACK on the scope's
  client had nothing to undo.
\<close>

theorem failed_scope_keeps_rows:
  "fst (transaction store_env insert_then_throw store_start) = Inl (Error ''boom'')
   \<and> committed (database (snd (transaction store_env insert_then_throw store_start))) =
       [[JNum 1]]
   \<and> fst (multiUpdate store_env ''t''
            [([(''a'', JNum 1)], [(''id'', JNum 1)]), ([(''a'', JNull)], [(''id'', JNum 2)])]
            [''*''] store_start) =
       Inl (DatabaseError ''null value violates not-null constraint'')
   \<and> committed (database (snd (multiUpdate store_env ''t''
            [([(''a'', JNum 1)], [(''id'', JNum 1)]), ([(''a'', JNull)], [(''id'', JNum 2)])]
            [''*''] store_start))) = [[JNum 1, JNum 1]]"
  by code_simp

section \<open>Placeholders and parameters\<close>

lemma render_append: "render (a @ b) = render a @ render b"
  by (simp add: render_def)

lemma render_Cons: "render (p # ps) = render_piece p @ render ps"
  by (simp add: render_def)

lemma render_Nil: "render [] = []"
  by (simp add: render_def)

lemma render_join_pieces: "render (join_pieces sep xs) = join sep (map render xs)"
  by (induction sep xs rule: join_pieces.induct)
     (simp_all add: render_append render_Cons render_Nil)

lemma emitted_append: "emitted (a @ b) = emitted a @ emitted b"
  by (induction a rule: emitted.induct) simp_all

lemma emitted_join_pieces: "emitted (join_pieces sep xs) = concat (map emitted xs)"
  by (induction sep xs rule: join_pieces.induct) (simp_all add: emitted_append)

lemma assign_pieces_Nil: "assign_pieces [] s = []"
  by (simp add: assign_pieces_def)

lemma assign_pieces_Cons:
  "assign_pieces (kv # kvs) s =
     [Text (fst kv @ '' = ''), Placeholder s (snd kv)] # assign_pieces kvs (Suc s)"
  unfolding assign_pieces_def length_Cons upt_add_Suc by simp

lemma render_assign_pieces: "map render (assign_pieces kvs s) = conditions (map fst kvs) s"
  by (induction kvs arbitrary: s)
     (simp_all add: assign_pieces_Nil assign_pieces_Cons conditions_Nil conditions_Cons
        condition_def render_Cons render_Nil)

lemma emitted_assign_pieces:
  "concat (map emitted (assign_pieces kvs s)) = zip [s..<s + length kvs] (map snd kvs)"
proof (induction kvs arbitrary: s)
  case Nil
  show ?case by (simp add: assign_pieces_Nil)
next
  case (Cons kv kvs)
  have "zip [s..<s + length (kv # kvs)] (map snd (kv # kvs)) =
        (s, snd kv) # zip [Suc s..<Suc s + length kvs] (map snd kvs)"
    unfolding length_Cons upt_add_Suc by simp
  with Cons show ?case by (simp add: assign_pieces_Cons)
qed


lemma length_keys: "length (keys wh) = length wh"
  by (simp add: keys_def)

lemma length_where_values: "length (where_values wh) = length wh"
  by (simp add: where_values_def keys_def)

lemma length_values_of: "length (values_of data) = length data"
  by (simp add: values_of_def)

lemma render_where_pieces: "render (where_pieces wh s) = where_clause wh s"
  by (simp add: where_pieces_def where_clause_def render_Cons render_Nil render_join_pieces
        render_assign_pieces length_keys length_where_values)

lemma emitted_where_pieces:
  "emitted (where_pieces wh s) = zip [s..<s + length wh] (where_values wh)"
  by (simp add: where_pieces_def emitted_join_pieces emitted_assign_pieces
        length_keys length_where_values)

lemma fst_emitted_where_pieces: "map fst (emitted (where_pieces wh s)) = [s..<s + length wh]"
  by (simp add: emitted_where_pieces length_where_values)

lemma snd_emitted_where_pieces: "map snd (emitted (where_pieces wh s)) = where_values wh"
  by (simp add: emitted_where_pieces length_where_values)

lemma length_emitted_where_pieces: "length (emitted (where_pieces wh s)) = length wh"
  by (simp add: emitted_where_pieces length_where_values)

lemma getAllRows_render:
  "render (getAllRows_pieces t opts) = fst (getAllRows_query t opts)"
  by (simp add: getAllRows_query_closed getAllRows_pieces_def select_head_def
        paging_clauses_def render_Cons render_Nil render_append render_where_pieces)

lemma getAllRows_values:
  "map snd (emitted (getAllRows_pieces t opts)) = snd (getAllRows_query t opts)"
  by (simp add: getAllRows_query_closed getAllRows_pieces_def paging_values_def
        emitted_append snd_emitted_where_pieces)

lemma getAllRows_numbers:
  "map fst (emitted (getAllRows_pieces t opts)) =
   [1..<1 + length (emitted (getAllRows_pieces t opts))]"
  by (simp add: getAllRows_pieces_def emitted_append fst_emitted_where_pieces
        length_emitted_where_pieces)

lemma updateRows_query_closed:
  "updateRows_query t data wh returning =
     (''UPDATE '' @ t @ '' SET '' @ join '', '' (conditions (keys data) 1) @
      where_clause wh (1 + length data) @ '' RETURNING '' @ join '', '' returning,
      values_of data @ where_values wh)"
  by (simp add: updateRows_query_def setAssignments_closed whereConditions_closed
        where_clause_def where_values_def keys_def)

lemma zip_keys_values:
  "map fst (zip (keys data) (values_of data)) = keys data"
  "map snd (zip (keys data) (values_of data)) = values_of data"
  "length (zip (keys data) (values_of data)) = length data"
  by (simp_all add: keys_def values_of_def)

lemma emitted_set_pieces:
  "emitted (join_pieces sep (assign_pieces (zip (keys data) (values_of data)) s)) =
   zip [s..<s + length data] (values_of data)"
  unfolding emitted_join_pieces emitted_assign_pieces zip_keys_values ..

lemma updateRows_render:
  "render (updateRows_pieces t data wh returning) = fst (updateRows_query t data wh returning)"
  unfolding updateRows_query_closed updateRows_pieces_def
  by (simp add: render_Cons render_Nil render_append render_join_pieces
        render_assign_pieces render_where_pieces zip_keys_values)

lemma updateRows_values:
  "map snd (emitted (updateRows_pieces t data wh returning)) =
   snd (updateRows_query t data wh returning)"
  unfolding updateRows_query_closed updateRows_pieces_def
  by (simp add: emitted_append emitted_set_pieces snd_emitted_where_pieces length_values_of
        del: upt_Suc)

lemma updateRows_numbers:
  "map fst (emitted (updateRows_pieces t data wh returning)) =
   [1..<1 + length (emitted (updateRows_pieces t data wh returning))]"
proof -
  have "[1..<1 + (length data + length wh)] =
        [1..<1 + length data] @ [1 + length data..<1 + length data + length wh]"
    by (metis add.assoc le_add1 upt_add_eq_append)
  then show ?thesis
    by (simp add: updateRows_pieces_def emitted_append emitted_set_pieces
          fst_emitted_where_pieces length_emitted_where_pieces length_values_of
          del: upt_Suc)
qed

lemma deleteRows_closed:
  "deleteRows_query t wh returning =
     (if wh = [] then Inl (Error ''DELETE operation requires WHERE conditions for safety'')
      else Inr (render (deleteRows_pieces t wh returning),
                map snd (emitted (deleteRows_pieces t wh returning))))"
  by (simp add: deleteRows_query_def deleteRows_pieces_def whereConditions_closed
        render_Cons render_Nil render_append render_where_pieces where_clause_def
        emitted_append snd_emitted_where_pieces where_values_def length_keys)

lemma deleteRows_numbers:
  "map fst (emitted (deleteRows_pieces t wh returning)) =
   [1..<1 + length (emitted (deleteRows_pieces t wh returning))]"
  by (simp add: deleteRows_pieces_def emitted_append fst_emitted_where_pieces
        length_emitted_where_pieces del: upt_Suc)


lemma rowPlaceholders_closed:
  "rowPlaceholders ks i = (map (\<lambda>n. ''$'' @ string_of_nat n) [i..<i + length ks], i + length ks)"
proof (induction ks arbitrary: i)
  case Nil
  show ?case by simp
next
  case (Cons k ks)
  show ?case
    unfolding rowPlaceholders.simps Cons length_Cons upt_add_Suc by simp
qed

lemma render_row_cells:
  "map render (map2 (\<lambda>key n. [Placeholder n (get_prop data key)]) ks [s..<s + length ks]) =
   map (\<lambda>n. ''$'' @ string_of_nat n) [s..<s + length ks]"
proof (induction ks arbitrary: s)
  case Nil
  show ?case by simp
next
  case (Cons k ks)
  from Cons [of "Suc s"] show ?case
    unfolding length_Cons upt_add_Suc by (simp add: render_Cons render_Nil)
qed

lemma emitted_row_cells:
  "concat (map emitted
     (map2 (\<lambda>key n. [Placeholder n (get_prop data key)]) ks [s..<s + length ks])) =
   zip [s..<s + length ks] (map (get_prop data) ks)"
proof (induction ks arbitrary: s)
  case Nil
  show ?case by simp
next
  case (Cons k ks)
  from Cons [of "Suc s"] show ?case
    unfolding length_Cons upt_add_Suc by simp
qed

lemma render_row_pieces:
  "render (row_pieces ks data s) =
   ''('' @ join '', '' (map (\<lambda>n. ''$'' @ string_of_nat n) [s..<s + length ks]) @ '')''"
  unfolding row_pieces_def render_Cons render_append render_join_pieces render_row_cells
  by (simp add: render_Nil del: upt_Suc)

lemma emitted_row_pieces:
  "emitted (row_pieces ks data s) = zip [s..<s + length ks] (map (get_prop data) ks)"
  unfolding row_pieces_def emitted.simps emitted_append emitted_join_pieces emitted_row_cells
  by simp

lemma multiInsert_forEach_closed:
  "multiInsert_forEach ks rows placeholders vals i =
     (placeholders @ map render (rows_pieces ks rows i),
      vals @ concat (map (\<lambda>data. map (get_prop data) ks) rows),
      i + length rows * length ks)"
proof (induction rows arbitrary: placeholders vals i)
  case Nil
  show ?case by simp
next
  case (Cons data rows)
  show ?case
    by (simp add: rowPlaceholders_closed Cons render_row_pieces add.assoc del: upt_Suc)
qed

lemma emitted_rows_pieces:
  "map fst (concat (map emitted (rows_pieces ks rows s))) = [s..<s + length rows * length ks]
   \<and> map snd (concat (map emitted (rows_pieces ks rows s))) =
       concat (map (\<lambda>data. map (get_prop data) ks) rows)"
proof (induction rows arbitrary: s)
  case Nil
  show ?case by simp
next
  case (Cons data rows)
  have "[s..<s + (length ks + length rows * length ks)] =
        [s..<s + length ks] @ [s + length ks..<s + length ks + length rows * length ks]"
    by (metis add.assoc le_add1 upt_add_eq_append)
  with Cons [of "s + length ks"] show ?case
    by (simp add: emitted_row_pieces del: upt_Suc)
qed

lemma multiInsert_closed:
  "multiInsert_query t dataArray returning =
     (if dataArray = [] then Inl (Error ''Data array must be a non-empty array'')
      else Inr (render (multiInsert_pieces t dataArray returning),
                map snd (emitted (multiInsert_pieces t dataArray returning))))"
proof (cases dataArray)
  case Nil
  then show ?thesis by (simp add: multiInsert_query_def)
next
  case (Cons first rest)
  have "map snd (concat (map emitted (rows_pieces (keys first) (first # rest) 1))) =
        concat (map (\<lambda>data. map (get_prop data) (keys first)) (first # rest))"
    using emitted_rows_pieces [of "keys first" "first # rest" 1] by blast
  then show ?thesis
    unfolding Cons multiInsert_query_def multiInsert_pieces_def Let_def
    by (simp add: multiInsert_forEach_closed render_Cons render_Nil render_append
          render_join_pieces emitted_append emitted_join_pieces del: upt_Suc)
qed

lemma multiInsert_numbers:
  "map fst (emitted (multiInsert_pieces t dataArray returning)) =
   [1..<1 + length (emitted (multiInsert_pieces t dataArray returning))]"
proof (cases dataArray)
  case Nil
  then show ?thesis by (simp add: multiInsert_pieces_def)
next
  case (Cons first rest)
  have e: "emitted (multiInsert_pieces t dataArray returning) =
        concat (map emitted (rows_pieces (keys first) (first # rest) 1))"
    unfolding Cons multiInsert_pieces_def
    by (simp add: emitted_append emitted_join_pieces)
  have f: "map fst (concat (map emitted (rows_pieces (keys first) (first # rest) 1))) =
        [1..<1 + length (first # rest) * length (keys first)]"
    using emitted_rows_pieces [of "keys first" "first # rest" 1] by blast
  have "length (concat (map emitted (rows_pieces (keys first) (first # rest) 1))) =
        length (first # rest) * length (keys first)"
    using arg_cong [OF f, of length] by (simp del: upt_Suc)
  with e f show ?thesis by (simp del: upt_Suc)
qed

text \<open>
  Claim C9. For \<open>getAllRows\<close>, \<open>updateRows\<close>, \<open>deleteRows\<close> and \<open>multiInsert\<close>, on
  every input: the statement built is the text of a sequence of pieces (literal text
  and placeholders, in the order SET, WHERE, LIMIT, OFFSET, respectively row by row);
  the placeholders of that sequence, read from left to right, are numbered 1, 2, ...
  up to their count; and the parameter list is the list of the values they stand for,
  in the same order. So the \<open>N\<close>-th placeholder is \<open>$N\<close>, it is bound to the \<open>N\<close>-th
  parameter, and there are as many placeholders as parameters. (\<open>deleteRows\<close> with an
  empty \<open>where\<close> and \<open>multiInsert\<close> with an empty array build no statement.)
\<close>

theorem placeholders_match_parameters:
  "getAllRows_query t opts =
     (render (getAllRows_pieces t opts), map snd (emitted (getAllRows_pieces t opts)))
   \<and> map fst (emitted (getAllRows_pieces t opts)) =
       [1..<1 + length (emitted (getAllRows_pieces t opts))]
   \<and> updateRows_query t data wh returning =
     (render (updateRows_pieces t data wh returning),
      map snd (emitted (updateRows_pieces t data wh returning)))
   \<and> map fst (emitted (updateRows_pieces t data wh returning)) =
       [1..<1 + length (emitted (updateRows_pieces t data wh returning))]
   \<and> deleteRows_query t wh returning =
     (if wh = [] then Inl (Error ''DELETE operation requires WHERE conditions for safety'')
      else Inr (render (deleteRows_pieces t wh returning),
                map snd (emitted (deleteRows_pieces t wh returning))))
   \<and> map fst (emitted (deleteRows_pieces t wh returning)) =
       [1..<1 + length (emitted (deleteRows_pieces t wh returning))]
   \<and> multiInsert_query t dataArray returning =
     (if dataArray = [] then Inl (Error ''Data array must be a non-empty array'')
      else Inr (render (multiInsert_pieces t dataArray returning),
                map snd (emitted (multiInsert_pieces t dataArray returning))))
   \<and> map fst (emitted (multiInsert_pieces t dataArray returning)) =
       [1..<1 + length (emitted (multiInsert_pieces t dataArray returning))]"
proof -
  have "getAllRows_query t opts =
     (render (getAllRows_pieces t opts), map snd (emitted (getAllRows_pieces t opts)))"
    by (simp add: getAllRows_render getAllRows_values)
  moreover have "updateRows_query t data wh returning =
     (render (updateRows_pieces t data wh returning),
      map snd (emitted (updateRows_pieces t data wh returning)))"
    by (simp add: updateRows_render updateRows_values)
  ultimately show ?thesis
    using getAllRows_numbers updateRows_numbers deleteRows_closed deleteRows_numbers
      multiInsert_closed multiInsert_numbers
    by blast
qed

end
